theory Spec2Isabelle
  imports
    Complex_Main
    "HOL-Library.Word"
    "HOL-Library.Signed_Division"
    "HOL-Library.Multiset"
begin

section \<open>Value types of the Win32 interface\<close>

text \<open>
  The engine of \<^verbatim>\<open>src/renderer/dx/DxRenderer.cpp\<close> works on the plain value types of the
  Win32 headers. \<^verbatim>\<open>SHORT\<close> is a 16-bit word (read with \<open>sint\<close>), \<^verbatim>\<open>ULONG\<close> and
  \<^verbatim>\<open>HRESULT\<close> are 32-bit words. A \<^verbatim>\<open>LONG\<close> is an \<open>int\<close> in the range \<open>is_LONG\<close>. The
  conversion of character cells to pixels multiplies and adds \<^verbatim>\<open>LONG\<close>s that can leave
  that range; there every result is reduced by \<open>LONG_wrap\<close>, the two's complement
  wrap-around of the compiled code. The remaining \<^verbatim>\<open>LONG\<close> arithmetic is written in
  \<open>int\<close>. The narrowing casts to \<^verbatim>\<open>SHORT\<close> are written out as \<open>word_of_int\<close>, the reduction
  modulo \<open>2 ^ 16\<close>.
\<close>

type_synonym SHORT = "16 word"
type_synonym LONG = int
type_synonym HRESULT = "32 word"

record COORD =
  X :: SHORT
  Y :: SHORT

record SMALL_RECT =
  Left :: SHORT
  Top :: SHORT
  Right :: SHORT
  Bottom :: SHORT

record POINT =
  x :: LONG
  y :: LONG

record SIZE =
  cx :: LONG
  cy :: LONG

record RECT =
  left :: LONG
  top' :: LONG
  right :: LONG
  bottom :: LONG

definition S_OK :: HRESULT where
  "S_OK = 0"

definition S_FALSE :: HRESULT where
  "S_FALSE = 1"

definition E_HANDLE :: HRESULT where
  "E_HANDLE = 0x80070006"

definition E_INVALIDARG :: HRESULT where
  "E_INVALIDARG = 0x80070057"


definition E_NOT_VALID_STATE :: HRESULT where
  \<comment> \<open>\<^verbatim>\<open>HRESULT_FROM_WIN32(ERROR_INVALID_STATE)\<close>, \<^verbatim>\<open>ERROR_INVALID_STATE\<close> being 5023\<close>
  "E_NOT_VALID_STATE = 0x8007139F"

definition SUCCEEDED :: "HRESULT \<Rightarrow> bool" where
  "SUCCEEDED hr = (0 \<le> sint hr)"

definition FAILED :: "HRESULT \<Rightarrow> bool" where
  "FAILED hr = (sint hr < 0)"

datatype HWND = INVALID_HANDLE_VALUE | Window nat

definition is_LONG :: "int \<Rightarrow> bool" where
  "is_LONG k = (- (2 ^ 31) \<le> k \<and> k < 2 ^ 31)"

definition LONG_wrap :: "int \<Rightarrow> LONG" where
  "LONG_wrap k = sint (word_of_int k :: 32 word)"

section \<open>The rectangle primitives of user32\<close>

text \<open>
  \<^verbatim>\<open>IsRectEmpty\<close>, \<^verbatim>\<open>OffsetRect\<close>, \<^verbatim>\<open>IntersectRect\<close>, \<^verbatim>\<open>UnionRect\<close> and \<^verbatim>\<open>SubtractRect\<close>
  are calls into the operating system, not code of this repository. The definitions follow
  the documented behaviour of the calls: a rectangle is empty when it has no area;
  an empty intersection is stored as the all-zero rectangle; a union ignores an empty
  operand; a subtraction only removes the second rectangle when it cuts the first one
  completely in one direction. Each function returns the rectangle that the call stores
  through its destination pointer.
\<close>

definition SetRectEmpty :: RECT where
  "SetRectEmpty = \<lparr>left = 0, top' = 0, right = 0, bottom = 0\<rparr>"

definition IsRectEmpty :: "RECT \<Rightarrow> bool" where
  "IsRectEmpty r = (right r \<le> left r \<or> bottom r \<le> top' r)"

definition OffsetRect :: "RECT \<Rightarrow> LONG \<Rightarrow> LONG \<Rightarrow> RECT" where
  "OffsetRect r dx dy =
     \<lparr>left = left r + dx, top' = top' r + dy, right = right r + dx, bottom = bottom r + dy\<rparr>"

definition IntersectRect :: "RECT \<Rightarrow> RECT \<Rightarrow> RECT" where
  "IntersectRect a b =
     (let l = max (left a) (left b); r = min (right a) (right b);
          t = max (top' a) (top' b); bt = min (bottom a) (bottom b)
      in if l < r \<and> t < bt then \<lparr>left = l, top' = t, right = r, bottom = bt\<rparr>
         else SetRectEmpty)"

definition UnionRect :: "RECT \<Rightarrow> RECT \<Rightarrow> RECT" where
  "UnionRect a b =
     (if IsRectEmpty a then (if IsRectEmpty b then SetRectEmpty else b)
      else if IsRectEmpty b then a
      else \<lparr>left = min (left a) (left b), top' = min (top' a) (top' b),
            right = max (right a) (right b), bottom = max (bottom a) (bottom b)\<rparr>)"

definition SubtractRect :: "RECT \<Rightarrow> RECT \<Rightarrow> RECT" where
  "SubtractRect a b =
     (let i = IntersectRect a b in
      if IsRectEmpty i then a
      else
        let sidesOut = (if left i \<le> left a then 1 else 0) + (if top' i \<le> top' a then 1 else 0)
                     + (if right a \<le> right i then 1 else 0)
                     + (if bottom a \<le> bottom i then 1 else (0::nat))
        in if sidesOut = 4 then SetRectEmpty
           else if sidesOut = 3 then
             (if left a < left i then a\<lparr>right := left i\<rparr>
              else if right i < right a then a\<lparr>left := right i\<rparr>
              else if top' a < top' i then a\<lparr>bottom := top' i\<rparr>
              else if bottom i < bottom a then a\<lparr>top' := bottom i\<rparr>
              else a)
           else a)"

section \<open>The engine state\<close>

text \<open>
  The fields of \<^verbatim>\<open>DxEngine\<close> that the paint and invalidation code reads or writes.
  \<^verbatim>\<open>DXGI_PRESENT_PARAMETERS\<close> holds pointers to members of the engine itself; a pointer is
  modelled by the member it addresses. The COM objects held by the engine are modelled by
  the set of members that are not null. The type \<open>'f\<close> stands for \<^verbatim>\<open>float\<close>.
\<close>

datatype member_ptr = nullptr | addr_presentDirty | addr_presentScroll | addr_presentOffset

record DXGI_PRESENT_PARAMETERS =
  DirtyRectsCount :: nat
  pDirtyRects :: member_ptr
  pScrollRect :: member_ptr
  pScrollOffset :: member_ptr

datatype com_member =
    d2dBrushForeground | d2dBrushBackground | d2dRenderTarget | dxgiSurface | dxgiSwapChain
  | dxgiOutput | d3dDeviceContext | d3dDevice | dxgiAdapter1 | dxgiFactory2

record 'f DxEngine =
  isInvalidUsed :: bool
  invalidRect :: RECT
  invalidScroll :: SIZE
  presentParams :: DXGI_PRESENT_PARAMETERS
  presentReady :: bool
  presentScroll :: RECT
  presentDirty :: RECT
  presentOffset :: POINT
  isEnabled :: bool
  isPainting :: bool
  displaySizePixels :: SIZE
  fontSize :: 'f
  baseline :: 'f
  glyphCell :: SIZE
  haveDeviceResources :: bool
  hwndTarget :: HWND
  comHeld :: "com_member set"
  glyphIds :: "nat list"
  glyphAdvances :: "'f list"

section \<open>Invalidation\<close>

definition ScaleByFont :: "RECT \<Rightarrow> SIZE \<Rightarrow> RECT" where
  "ScaleByFont cellsToPixels fontSz =
     \<lparr>left = LONG_wrap (left cellsToPixels * cx fontSz),
      top' = LONG_wrap (top' cellsToPixels * cy fontSz),
      right = LONG_wrap (right cellsToPixels * cx fontSz),
      bottom = LONG_wrap (bottom cellsToPixels * cy fontSz)\<rparr>"

definition GetDisplayRect :: "'f DxEngine \<Rightarrow> RECT" where
  "GetDisplayRect s =
     \<lparr>left = 0, top' = 0, right = cx (displaySizePixels s), bottom = cy (displaySizePixels s)\<rparr>"

definition InvalidOffset :: "POINT \<Rightarrow> 'f DxEngine \<Rightarrow> 'f DxEngine" where
  "InvalidOffset delta s =
     (if isInvalidUsed s then
        s\<lparr>invalidRect :=
            IntersectRect (OffsetRect (invalidRect s) (x delta) (y delta)) (GetDisplayRect s)\<rparr>
      else s)"

definition InvalidOr_RECT :: "RECT \<Rightarrow> 'f DxEngine \<Rightarrow> 'f DxEngine" where
  "InvalidOr_RECT rc s =
     (if isInvalidUsed s then
        s\<lparr>invalidRect := IntersectRect (UnionRect (invalidRect s) rc) (GetDisplayRect s)\<rparr>
      else s\<lparr>invalidRect := rc, isInvalidUsed := True\<rparr>)"

definition cells_to_pixels :: "SIZE \<Rightarrow> SMALL_RECT \<Rightarrow> RECT" where
  \<comment> \<open>the local \<^verbatim>\<open>region\<close> of \<^verbatim>\<open>_InvalidOr(SMALL_RECT)\<close> when it is handed on\<close>
  "cells_to_pixels cell sr =
     (let region = ScaleByFont
            \<lparr>left = sint (Left sr), top' = sint (Top sr),
             right = sint (Right sr), bottom = sint (Bottom sr)\<rparr> cell
      in region\<lparr>right := LONG_wrap (right region + cx cell),
                bottom := LONG_wrap (bottom region + cy cell)\<rparr>)"

definition InvalidOr_SMALL_RECT :: "SMALL_RECT \<Rightarrow> 'f DxEngine \<Rightarrow> 'f DxEngine" where
  "InvalidOr_SMALL_RECT sr s = InvalidOr_RECT (cells_to_pixels (glyphCell s) sr) s"

definition Invalidate :: "SMALL_RECT \<Rightarrow> 'f DxEngine \<Rightarrow> HRESULT \<times> 'f DxEngine" where
  "Invalidate psrRegion s = (S_OK, InvalidOr_SMALL_RECT psrRegion s)"


definition InvalidateAll :: "'f DxEngine \<Rightarrow> HRESULT \<times> 'f DxEngine" where
  "InvalidateAll s = (S_OK, InvalidOr_RECT (GetDisplayRect s) s)"

definition scroll_reveal :: "RECT \<Rightarrow> LONG \<Rightarrow> LONG \<Rightarrow> RECT" where
  \<comment> \<open>the local \<^verbatim>\<open>reveal\<close> of \<^verbatim>\<open>InvalidateScroll\<close> after its three rectangle calls\<close>
  "scroll_reveal display dx dy =
     SubtractRect display (IntersectRect (OffsetRect display dx dy) display)"

definition InvalidateScroll :: "COORD \<Rightarrow> 'f DxEngine \<Rightarrow> HRESULT \<times> 'f DxEngine" where
  "InvalidateScroll pcoordDelta s =
     (if X pcoordDelta \<noteq> 0 \<or> Y pcoordDelta \<noteq> 0 then
        let delta = \<lparr>x = sint (X pcoordDelta) * cx (glyphCell s),
                     y = sint (Y pcoordDelta) * cy (glyphCell s)\<rparr>;
            s1 = InvalidOffset delta s;
            s2 = s1\<lparr>invalidScroll := \<lparr>cx = cx (invalidScroll s1) + x delta,
                                       cy = cy (invalidScroll s1) + y delta\<rparr>\<rparr>;
            display = GetDisplayRect s2;
            revealX = scroll_reveal display (x delta) 0;
            s3 = (if \<not> IsRectEmpty revealX then InvalidOr_RECT revealX s2 else s2);
            revealY = scroll_reveal display 0 (y delta);
            s4 = (if \<not> IsRectEmpty revealY then InvalidOr_RECT revealY s3 else s3)
        in (S_OK, s4)
      else (S_OK, s))"

definition GetDirtyRectInChars :: "'f DxEngine \<Rightarrow> SMALL_RECT option" where
  \<comment> \<open>\<open>None\<close> is the integer division by zero; \<open>sdiv\<close> truncates towards zero as C++ does\<close>
  "GetDirtyRectInChars s =
     (if cx (glyphCell s) = 0 \<or> cy (glyphCell s) = 0 then None
      else
        let r = \<lparr>Left = word_of_int (left (invalidRect s) sdiv cx (glyphCell s)),
                 Top = word_of_int (top' (invalidRect s) sdiv cy (glyphCell s)),
                 Right = word_of_int (right (invalidRect s) sdiv cx (glyphCell s)),
                 Bottom = word_of_int (bottom (invalidRect s) sdiv cy (glyphCell s))\<rparr>;
            r1 = r\<lparr>Bottom := Bottom r - 1\<rparr>;
            r2 = r1\<lparr>Right := Right r1 - 1\<rparr>
        in Some r2)"

section \<open>Device resources and the paint session\<close>

text \<open>
  The calls into DXGI, Direct3D and Direct2D are outside the repository. What they report
  is an input of the model: the client rectangle of the window, the first failing
  \<^verbatim>\<open>HRESULT\<close> of the adapter stage of \<^verbatim>\<open>_CreateDeviceResources\<close> (the four calls before
  \<^verbatim>\<open>_displaySizePixels\<close> is assigned) and of its swap-chain stage (the calls after it), each
  \<open>S_OK\<close> when no call fails.
\<close>

record device_env =
  clientRect :: RECT
  adapterStage :: HRESULT
  swapChainStage :: HRESULT

definition GetClientSize :: "device_env \<Rightarrow> SIZE" where
  "GetClientSize env =
     \<lparr>cx = right (clientRect env) - left (clientRect env),
      cy = bottom (clientRect env) - top' (clientRect env)\<rparr>"

definition ReleaseDeviceResources :: "'f DxEngine \<Rightarrow> 'f DxEngine" where
  "ReleaseDeviceResources s = s\<lparr>haveDeviceResources := False, comHeld := {}\<rparr>"

definition CreateDeviceResources ::
  "bool \<Rightarrow> device_env \<Rightarrow> 'f DxEngine \<Rightarrow> HRESULT \<times> 'f DxEngine" where
  "CreateDeviceResources createSwapChain env s =
     (let s1 = (if haveDeviceResources s then ReleaseDeviceResources s else s) in
      if FAILED (adapterStage env) then (adapterStage env, ReleaseDeviceResources s1)
      else
        let s2 = s1\<lparr>displaySizePixels := GetClientSize env\<rparr> in
        if createSwapChain \<and> FAILED (swapChainStage env)
        then (swapChainStage env, ReleaseDeviceResources s2)
        else (S_OK,
              s2\<lparr>comHeld :=
                    (if createSwapChain then UNIV
                     else {dxgiFactory2, dxgiAdapter1, d3dDevice, d3dDeviceContext, dxgiOutput}),
                  haveDeviceResources := True\<rparr>))"

definition EnableDisplayAccess :: "bool \<Rightarrow> 'f DxEngine \<Rightarrow> HRESULT \<times> 'f DxEngine" where
  "EnableDisplayAccess outputEnabled s =
     (if outputEnabled = isEnabled s then (E_NOT_VALID_STATE, s)
      else
        let s1 = s\<lparr>isEnabled := outputEnabled\<rparr>
        in (S_OK, if \<not> isEnabled s1 then ReleaseDeviceResources s1 else s1))"

definition Enable :: "'f DxEngine \<Rightarrow> HRESULT \<times> 'f DxEngine" where
  "Enable s = EnableDisplayAccess True s"


definition SetHwnd :: "HWND \<Rightarrow> 'f DxEngine \<Rightarrow> HRESULT \<times> 'f DxEngine" where
  "SetHwnd hwnd s = (S_OK, s\<lparr>hwndTarget := hwnd\<rparr>)"

definition StartPaint :: "device_env \<Rightarrow> 'f DxEngine \<Rightarrow> HRESULT \<times> 'f DxEngine" where
  "StartPaint env s =
     (if hwndTarget s = INVALID_HANDLE_VALUE then (E_HANDLE, s)
      else if isPainting s then (E_NOT_VALID_STATE, s)
      else if isEnabled s then
        let clientSize = GetClientSize env in
        if \<not> haveDeviceResources s
           \<or> cy (displaySizePixels s) \<noteq> cy clientSize
           \<or> cx (displaySizePixels s) \<noteq> cx clientSize
        then
          (case CreateDeviceResources True env s of
             (hr, s1) \<Rightarrow> if FAILED hr then (hr, s1) else (S_OK, s1\<lparr>isPainting := True\<rparr>))
        else (S_OK, s\<lparr>isPainting := True\<rparr>)
      else (S_OK, s))"

definition capture_present :: "'f DxEngine \<Rightarrow> 'f DxEngine" where
  \<comment> \<open>the body of the scroll branch of \<^verbatim>\<open>EndPaint\<close>\<close>
  "capture_present s =
     (let dirty = invalidRect s;
          scroll = SubtractRect (GetDisplayRect s) dirty;
          p1 = (presentParams s)\<lparr>DirtyRectsCount := 1, pDirtyRects := addr_presentDirty,
                 pScrollOffset := addr_presentOffset, pScrollRect := addr_presentScroll\<rparr>;
          p2 = (if IsRectEmpty scroll then p1\<lparr>pScrollRect := nullptr, pScrollOffset := nullptr\<rparr>
                else p1)
      in s\<lparr>presentDirty := dirty, presentScroll := scroll,
           presentOffset := \<lparr>x = cx (invalidScroll s), y = cy (invalidScroll s)\<rparr>,
           presentParams := p2\<rparr>)"

definition EndPaint :: "HRESULT \<Rightarrow> 'f DxEngine \<Rightarrow> HRESULT \<times> 'f DxEngine" where
  \<comment> \<open>\<open>endDraw\<close> is what \<^verbatim>\<open>_d2dRenderTarget->EndDraw()\<close> returns\<close>
  "EndPaint endDraw s =
     (if \<not> isPainting s then (E_INVALIDARG, s)
      else
        let (hr, s1) =
              (if haveDeviceResources s then
                 let s0 = s\<lparr>isPainting := False\<rparr> in
                 if SUCCEEDED endDraw then
                   (endDraw,
                    (if cy (invalidScroll s0) \<noteq> 0 \<or> cx (invalidScroll s0) \<noteq> 0
                     then capture_present s0 else s0)\<lparr>presentReady := True\<rparr>)
                 else (endDraw, ReleaseDeviceResources (s0\<lparr>presentReady := False\<rparr>))
               else (S_OK, s))
        in (hr, s1\<lparr>invalidRect := SetRectEmpty, isInvalidUsed := False,
                    invalidScroll := \<lparr>cx = 0, cy = 0\<rparr>\<rparr>))"

text \<open>
  What \<^verbatim>\<open>Present1\<close> sees through the pointers of \<^verbatim>\<open>_presentParams\<close>: the dirty rectangles,
  the scroll rectangle and the scroll offset, each absent when its pointer is null.
\<close>

record PresentationPlan =
  planDirtyRects :: "RECT list"
  planScrollRect :: "RECT option"
  planScrollOffset :: "POINT option"

definition deref_RECT :: "member_ptr \<Rightarrow> 'f DxEngine \<Rightarrow> RECT option" where
  "deref_RECT p s =
     (case p of addr_presentDirty \<Rightarrow> Some (presentDirty s)
              | addr_presentScroll \<Rightarrow> Some (presentScroll s)
              | _ \<Rightarrow> None)"

definition deref_POINT :: "member_ptr \<Rightarrow> 'f DxEngine \<Rightarrow> POINT option" where
  "deref_POINT p s = (case p of addr_presentOffset \<Rightarrow> Some (presentOffset s) | _ \<Rightarrow> None)"

definition plan_of :: "'f DxEngine \<Rightarrow> PresentationPlan" where
  "plan_of s =
     \<lparr>planDirtyRects =
        (case deref_RECT (pDirtyRects (presentParams s)) s of
           None \<Rightarrow> [] | Some r \<Rightarrow> take (DirtyRectsCount (presentParams s)) [r]),
      planScrollRect = deref_RECT (pScrollRect (presentParams s)) s,
      planScrollOffset = deref_POINT (pScrollOffset (presentParams s)) s\<rparr>"

datatype 'a call_result = FailFast | Returns HRESULT 'a

definition Present ::
  "HRESULT \<Rightarrow> HRESULT \<Rightarrow> 'f DxEngine \<Rightarrow> PresentationPlan option \<times> 'f DxEngine call_result" where
  \<comment> \<open>\<open>present1\<close> and \<open>copy\<close> are the results of \<^verbatim>\<open>Present1\<close> and \<^verbatim>\<open>_CopyFrontToBack\<close>;
      the first component is the plan handed to \<^verbatim>\<open>Present1\<close>, if it is called\<close>
  "Present present1 copy s =
     (if presentReady s then
        (Some (plan_of s),
         if FAILED present1 then FailFast
         else if FAILED copy then Returns copy s
         else Returns S_OK
                (s\<lparr>presentReady := False, presentDirty := SetRectEmpty,
                   presentOffset := \<lparr>x = 0, y = 0\<rparr>, presentScroll := SetRectEmpty,
                   presentParams := \<lparr>DirtyRectsCount = 0, pDirtyRects = nullptr,
                                      pScrollRect = nullptr, pScrollOffset = nullptr\<rparr>\<rparr>))
      else (None, Returns S_OK s))"

definition DxEngine_ctor :: "'f \<Rightarrow> 'f \<Rightarrow> 'f DxEngine" where
  \<comment> \<open>the member initialisers of the constructor; \<open>zero\<close> is the \<^verbatim>\<open>float\<close> 0 of
      \<^verbatim>\<open>_fontSize{ 0 }\<close>, \<open>b\<close> the value of \<^verbatim>\<open>_baseline\<close>, which has no initialiser\<close>
  "DxEngine_ctor zero b =
     \<lparr>isInvalidUsed = False, invalidRect = SetRectEmpty, invalidScroll = \<lparr>cx = 0, cy = 0\<rparr>,
      presentParams = \<lparr>DirtyRectsCount = 0, pDirtyRects = nullptr,
                       pScrollRect = nullptr, pScrollOffset = nullptr\<rparr>,
      presentReady = False, presentScroll = SetRectEmpty, presentDirty = SetRectEmpty,
      presentOffset = \<lparr>x = 0, y = 0\<rparr>, isEnabled = False, isPainting = False,
      displaySizePixels = \<lparr>cx = 0, cy = 0\<rparr>, fontSize = zero, baseline = b,
      glyphCell = \<lparr>cx = 0, cy = 0\<rparr>, haveDeviceResources = False,
      hwndTarget = INVALID_HANDLE_VALUE, comHeld = {}, glyphIds = [], glyphAdvances = []\<rparr>"

definition idle_engine :: "SIZE \<Rightarrow> SIZE \<Rightarrow> real DxEngine" where
  \<comment> \<open>a freshly constructed engine after a font update and a first sizing\<close>
  "idle_engine cell display =
     (DxEngine_ctor 0 0)\<lparr>glyphCell := cell, displaySizePixels := display\<rparr>"

section \<open>Sequences of invalidations\<close>

text \<open>
  A run of \<^verbatim>\<open>Invalidate\<close> and \<^verbatim>\<open>InvalidateSystem\<close> calls, applied from left to right.
\<close>

datatype invalidate_call = InvalidateCells SMALL_RECT | InvalidatePixels RECT




text \<open>
  The specification's side of the comparison, written from its words. A character
  rectangle is scaled edge by edge and extended by one cell to the right and to the bottom,
  in exact arithmetic; the result is \<open>representable\<close> when its four edges are
  \<^verbatim>\<open>LONG\<close>s. The union of rectangles is the bounding box of those that have an area, an
  empty rectangle adding nothing to a union. Clamping is the intersection with the display
  rectangle. A rectangle \<open>meets\<close> the display when the two overlap in an area, and lies
  \<open>within_display\<close> when it is well formed and no edge leaves the display.
  \<open>prefixes_meet\<close> says of a run of three or more rectangles that the union of its first
  two, first three, and so on up to all but the last, is empty or meets the display.
\<close>

fun supplied_pixels :: "SIZE \<Rightarrow> invalidate_call \<Rightarrow> RECT" where
  "supplied_pixels cell (InvalidateCells sr) =
     \<lparr>left = sint (Left sr) * cx cell, top' = sint (Top sr) * cy cell,
      right = sint (Right sr) * cx cell + cx cell,
      bottom = sint (Bottom sr) * cy cell + cy cell\<rparr>"
| "supplied_pixels cell (InvalidatePixels rc) = rc"

definition representable :: "RECT \<Rightarrow> bool" where
  "representable r =
     (is_LONG (left r) \<and> is_LONG (top' r) \<and> is_LONG (right r) \<and> is_LONG (bottom r))"

definition within_display :: "RECT \<Rightarrow> RECT \<Rightarrow> bool" where
  "within_display display r =
     (left display \<le> left r \<and> left r \<le> right r \<and> right r \<le> right display
      \<and> top' display \<le> top' r \<and> top' r \<le> bottom r \<and> bottom r \<le> bottom display)"

definition bounding_join :: "RECT \<Rightarrow> RECT \<Rightarrow> RECT" where
  "bounding_join a b =
     \<lparr>left = min (left a) (left b), top' = min (top' a) (top' b),
      right = max (right a) (right b), bottom = max (bottom a) (bottom b)\<rparr>"

definition bounding_union :: "RECT list \<Rightarrow> RECT" where
  "bounding_union rs =
     (let ne = filter (\<lambda>r. \<not> IsRectEmpty r) rs in
      if ne = [] then SetRectEmpty
      else \<lparr>left = Min (set (map left ne)), top' = Min (set (map top' ne)),
            right = Max (set (map right ne)), bottom = Max (set (map bottom ne))\<rparr>)"





section \<open>Example engines\<close>

text \<open>
  Closed engine states reached through the public calls, for evaluating the theorems:
  a window of 640 by 384 pixels whose device calls all succeed, an enabled engine with that
  window as its target, the same engine inside a paint session, and the session after a
  cell invalidation followed by a scroll of two columns.
\<close>

definition window_env :: device_env where
  "window_env = \<lparr>clientRect = \<lparr>left = 0, top' = 0, right = 640, bottom = 384\<rparr>,
                  adapterStage = S_OK, swapChainStage = S_OK\<rparr>"

definition cleared_params :: DXGI_PRESENT_PARAMETERS where
  \<comment> \<open>\<^verbatim>\<open>_presentParams\<close> after the constructor and after a completed \<^verbatim>\<open>Present\<close>\<close>
  "cleared_params = \<lparr>DirtyRectsCount = 0, pDirtyRects = nullptr,
                      pScrollRect = nullptr, pScrollOffset = nullptr\<rparr>"

definition D2DERR_RECREATE_TARGET :: HRESULT where
  "D2DERR_RECREATE_TARGET = 0x8899000C"

definition ready_engine :: "real DxEngine" where
  "ready_engine =
     snd (SetHwnd (Window 1)
       (snd (Enable (idle_engine \<lparr>cx = 8, cy = 16\<rparr> \<lparr>cx = 0, cy = 0\<rparr>))))"

definition painting_engine :: "real DxEngine" where
  "painting_engine = snd (StartPaint window_env ready_engine)"

definition scrolled_engine :: "real DxEngine" where
  "scrolled_engine =
     snd (InvalidateScroll \<lparr>X = 2, Y = 0\<rparr>
       (snd (Invalidate \<lparr>Left = 0, Top = 0, Right = 9, Bottom = 0\<rparr> painting_engine)))"

section \<open>Painting text and the cursor\<close>






datatype D2D1_DRAW_TEXT_OPTIONS =
  D2D1_DRAW_TEXT_OPTIONS_NONE | D2D1_DRAW_TEXT_OPTIONS_ENABLE_COLOR_FONT










datatype CursorPaintType = Fill | Outline















section \<open>Properties\<close>

subsection \<open>Truncating division, wrap-around and the narrowing casts\<close>

lemma sdiv_mult_self:
  assumes "0 < c"
  shows "(a * c) sdiv c = (a::int)"
proof -
  have "\<bar>a * c\<bar> div \<bar>c\<bar> = \<bar>a\<bar>"
    using assms by (simp add: abs_mult)
  moreover have "sgn (a * c) * sgn c = sgn a"
    using assms by (simp add: sgn_mult)
  ultimately have "sgn (a * c) * sgn c * (\<bar>a * c\<bar> div \<bar>c\<bar>) = sgn a * \<bar>a\<bar>"
    by (simp only:)
  then show ?thesis
    by (simp only: signed_divide_int_def sgn_mult_abs)
qed

lemma sdiv_mult_add_self: "0 < c \<Longrightarrow> (a * c + c) sdiv c = (a::int) + 1"
  using sdiv_mult_self [of c "a + 1"] by (simp add: algebra_simps)

lemma LONG_wrap_id: "is_LONG k \<Longrightarrow> LONG_wrap k = k"
  by (simp add: LONG_wrap_def is_LONG_def sint_sbintrunc' signed_take_bit_int_eq_self)

lemma LONG_wrap_add: "LONG_wrap (LONG_wrap a + b) = LONG_wrap (a + b)"
  by (simp add: LONG_wrap_def)

lemma cells_to_pixels_exact:
  assumes "representable (supplied_pixels cell (InvalidateCells sr))"
  shows "cells_to_pixels cell sr = supplied_pixels cell (InvalidateCells sr)"
  using assms
  by (simp add: cells_to_pixels_def ScaleByFont_def Let_def representable_def
      LONG_wrap_add LONG_wrap_id)

lemma within_display_representable:
  assumes "within_display d r" and "left d = 0" and "top' d = 0"
    and "is_LONG (right d)" and "is_LONG (bottom d)"
  shows "representable r"
  using assms by (auto simp: within_display_def representable_def is_LONG_def)

subsection \<open>Cells to pixels and back\<close>

text \<open>
  Claim C9. Let the glyph cell be positive, no dirty region be marked, the display size be
  a pair of \<^verbatim>\<open>LONG\<close>s, and let the pixel rectangle of the character rectangle \<open>r\<close>, in exact
  arithmetic, lie within the display. Then no product or sum of the conversion leaves the
  range of \<^verbatim>\<open>LONG\<close>, and invalidating \<open>r\<close> and asking for the dirty rectangle in
  characters gives \<open>r\<close> back: the scaled edges divide exactly, the added cell at the
  right and at the bottom divides to one more column and row, and the decrement of the two
  \<^verbatim>\<open>SHORT\<close>s takes it away again.
\<close>

theorem C9_cells_roundtrip:
  assumes "0 < cx (glyphCell s)" and "0 < cy (glyphCell s)" and "\<not> isInvalidUsed s"
    and "is_LONG (cx (displaySizePixels s))" and "is_LONG (cy (displaySizePixels s))"
    and "within_display (GetDisplayRect s) (supplied_pixels (glyphCell s) (InvalidateCells r))"
  shows "GetDirtyRectInChars (snd (Invalidate r s)) = Some r"
proof -
  have "representable (supplied_pixels (glyphCell s) (InvalidateCells r))"
    using assms(4-6)
      within_display_representable
        [of "GetDisplayRect s" "supplied_pixels (glyphCell s) (InvalidateCells r)"]
    by (simp add: GetDisplayRect_def)
  then have "cells_to_pixels (glyphCell s) r = supplied_pixels (glyphCell s) (InvalidateCells r)"
    by (rule cells_to_pixels_exact)
  then show ?thesis
    using assms(1-3)
    by (simp add: GetDirtyRectInChars_def Invalidate_def InvalidOr_SMALL_RECT_def
        InvalidOr_RECT_def Let_def sdiv_mult_self sdiv_mult_add_self)
qed

theorem C9_cells_roundtrip_witness:
  "GetDirtyRectInChars
     (snd (Invalidate \<lparr>Left = 2, Top = 1, Right = 5, Bottom = 3\<rparr>
        (idle_engine \<lparr>cx = 8, cy = 16\<rparr> \<lparr>cx = 640, cy = 384\<rparr>)))
   = Some \<lparr>Left = 2, Top = 1, Right = 5, Bottom = 3\<rparr>"
proof -
  let ?s = "idle_engine \<lparr>cx = 8, cy = 16\<rparr> \<lparr>cx = 640, cy = 384\<rparr>"
  have h1: "0 < cx (glyphCell ?s)" and h2: "0 < cy (glyphCell ?s)"
    and h3: "\<not> isInvalidUsed ?s"
    by (simp_all add: idle_engine_def DxEngine_ctor_def)
  have h4: "is_LONG (cx (displaySizePixels ?s))" and h5: "is_LONG (cy (displaySizePixels ?s))"
    by (simp_all add: idle_engine_def DxEngine_ctor_def is_LONG_def)
  have h6: "within_display (GetDisplayRect ?s)
      (supplied_pixels (glyphCell ?s) (InvalidateCells \<lparr>Left = 2, Top = 1, Right = 5, Bottom = 3\<rparr>))"
    by (simp add: idle_engine_def DxEngine_ctor_def within_display_def GetDisplayRect_def)
  show ?thesis
    by (rule C9_cells_roundtrip [OF h1 h2 h3 h4 h5 h6])
qed

text \<open>
  Without the bound the conversion wraps around: with a cell 70000 pixels wide, column
  32767 comes back as column -28589.
\<close>

lemma cells_roundtrip_wraps:
  "GetDirtyRectInChars
     (snd (Invalidate \<lparr>Left = 0, Top = 0, Right = 32767, Bottom = 0\<rparr>
        (idle_engine \<lparr>cx = 70000, cy = 16\<rparr> \<lparr>cx = 640, cy = 384\<rparr>)))
   = Some \<lparr>Left = 0, Top = 0, Right = - 28589, Bottom = 0\<rparr>"
  by code_simp

subsection \<open>The dirty rectangle of a run of invalidations\<close>



lemma UnionRect_join:
  "\<not> IsRectEmpty a \<Longrightarrow> \<not> IsRectEmpty b \<Longrightarrow> UnionRect a b = bounding_join a b"
  by (simp add: UnionRect_def bounding_join_def)







lemma bounding_union_empty: "filter (\<lambda>r. \<not> IsRectEmpty r) rs = [] \<Longrightarrow> bounding_union rs = SetRectEmpty"
  by (simp add: bounding_union_def)

lemma bounding_union_edges:
  assumes "filter (\<lambda>r. \<not> IsRectEmpty r) rs \<noteq> []"
  shows "left (bounding_union rs) = Min (left ` set (filter (\<lambda>r. \<not> IsRectEmpty r) rs))"
    and "top' (bounding_union rs) = Min (top' ` set (filter (\<lambda>r. \<not> IsRectEmpty r) rs))"
    and "right (bounding_union rs) = Max (right ` set (filter (\<lambda>r. \<not> IsRectEmpty r) rs))"
    and "bottom (bounding_union rs) = Max (bottom ` set (filter (\<lambda>r. \<not> IsRectEmpty r) rs))"
  using assms by (simp_all add: bounding_union_def Let_def del: set_filter)

lemma bounding_union_not_empty:
  assumes "filter (\<lambda>r. \<not> IsRectEmpty r) rs \<noteq> []"
  shows "\<not> IsRectEmpty (bounding_union rs)"
proof -
  let ?ne = "filter (\<lambda>r. \<not> IsRectEmpty r) rs"
  obtain r where r: "r \<in> set ?ne"
    using assms by (cases ?ne) auto
  then have e: "left r < right r" "top' r < bottom r"
    by (auto simp: IsRectEmpty_def)
  have "Min (left ` set ?ne) \<le> left r"
    using r by (intro Min_le) auto
  moreover have "right r \<le> Max (right ` set ?ne)"
    using r by (intro Max_ge) auto
  moreover have "Min (top' ` set ?ne) \<le> top' r"
    using r by (intro Min_le) auto
  moreover have "bottom r \<le> Max (bottom ` set ?ne)"
    using r by (intro Max_ge) auto
  ultimately have "left (bounding_union rs) < right (bounding_union rs)"
    and "top' (bounding_union rs) < bottom (bounding_union rs)"
    using e by (simp_all only: bounding_union_edges [OF assms])
  then show ?thesis
    by (simp add: IsRectEmpty_def)
qed


lemma bounding_union_snoc: "bounding_union (rs @ [r]) = UnionRect (bounding_union rs) r"
proof -
  let ?ne = "filter (\<lambda>r. \<not> IsRectEmpty r) rs"
  show ?thesis
  proof (cases "?ne = []")
    case True
    then have "bounding_union rs = SetRectEmpty"
      by (rule bounding_union_empty)
    then show ?thesis
      using True
      by (simp add: bounding_union_def UnionRect_def IsRectEmpty_def SetRectEmpty_def)
  next
    case False
    then have ne: "\<not> IsRectEmpty (bounding_union rs)"
      by (rule bounding_union_not_empty)
    show ?thesis
    proof (cases "IsRectEmpty r")
      case True
      then show ?thesis
        using ne by (simp add: bounding_union_def UnionRect_def)
    next
      case r: False
      have "UnionRect (bounding_union rs) r = bounding_join (bounding_union rs) r"
        using ne r by (rule UnionRect_join)
      then show ?thesis
        using False r
        by (simp add: bounding_union_def bounding_join_def Let_def min.commute max.commute
            del: set_filter)
    qed
  qed
qed

lemma bounding_union_single: "bounding_union [a] = UnionRect SetRectEmpty a"
  using bounding_union_snoc [of "[]" a] by (simp add: bounding_union_def)



















subsection \<open>Scrolling the dirty region\<close>








subsection \<open>The paint session\<close>

lemma FAILED_iff: "FAILED hr \<longleftrightarrow> \<not> SUCCEEDED hr"
  by (auto simp: FAILED_def SUCCEEDED_def)

lemma EndPaint_success:
  assumes "isPainting s" and "haveDeviceResources s" and "SUCCEEDED endDraw"
  shows "EndPaint endDraw s =
     (endDraw,
      (if cy (invalidScroll s) \<noteq> 0 \<or> cx (invalidScroll s) \<noteq> 0
       then capture_present (s\<lparr>isPainting := False\<rparr>) else s\<lparr>isPainting := False\<rparr>)
        \<lparr>presentReady := True, invalidRect := SetRectEmpty, isInvalidUsed := False,
         invalidScroll := \<lparr>cx = 0, cy = 0\<rparr>\<rparr>)"
  using assms by (simp add: EndPaint_def Let_def)

lemma EndPaint_failure:
  assumes "isPainting s" and "haveDeviceResources s" and "FAILED endDraw"
  shows "EndPaint endDraw s =
     (endDraw,
      s\<lparr>isPainting := False, presentReady := False, haveDeviceResources := False,
        comHeld := {}, invalidRect := SetRectEmpty, isInvalidUsed := False,
        invalidScroll := \<lparr>cx = 0, cy = 0\<rparr>\<rparr>)"
  using assms by (simp add: EndPaint_def Let_def FAILED_iff ReleaseDeviceResources_def)

lemma EndPaint_no_resources:
  assumes "isPainting s" and "\<not> haveDeviceResources s"
  shows "EndPaint endDraw s =
     (S_OK, s\<lparr>invalidRect := SetRectEmpty, isInvalidUsed := False,
              invalidScroll := \<lparr>cx = 0, cy = 0\<rparr>\<rparr>)"
  using assms by (simp add: EndPaint_def Let_def)

lemma plan_of_capture_present:
  "plan_of ((capture_present s)\<lparr>presentReady := True, invalidRect := r, isInvalidUsed := u,
         invalidScroll := z\<rparr>) =
     \<lparr>planDirtyRects = [invalidRect s],
      planScrollRect =
        (if IsRectEmpty (SubtractRect (GetDisplayRect s) (invalidRect s)) then None
         else Some (SubtractRect (GetDisplayRect s) (invalidRect s))),
      planScrollOffset =
        (if IsRectEmpty (SubtractRect (GetDisplayRect s) (invalidRect s)) then None
         else Some \<lparr>x = cx (invalidScroll s), y = cy (invalidScroll s)\<rparr>)\<rparr>"
  by (simp add: plan_of_def capture_present_def Let_def deref_RECT_def deref_POINT_def)

lemma HRESULT_distinct:
  "E_HANDLE \<noteq> S_OK" "E_NOT_VALID_STATE \<noteq> S_OK" "E_INVALIDARG \<noteq> S_OK"
  "\<not> SUCCEEDED E_HANDLE" "\<not> SUCCEEDED E_NOT_VALID_STATE" "\<not> SUCCEEDED E_INVALIDARG"
  "SUCCEEDED S_OK" "\<not> FAILED S_OK"
  by (simp_all add: E_HANDLE_def E_NOT_VALID_STATE_def E_INVALIDARG_def S_OK_def
      SUCCEEDED_def FAILED_def)

lemma hwndTarget_CreateDeviceResources:
  "hwndTarget (snd (CreateDeviceResources b env s)) = hwndTarget s"
  by (simp add: CreateDeviceResources_def ReleaseDeviceResources_def Let_def)

lemma StartPaint_opens:
  assumes "isEnabled s" and "SUCCEEDED (fst (StartPaint env s))"
  shows "isPainting (snd (StartPaint env s))
       \<and> hwndTarget (snd (StartPaint env s)) \<noteq> INVALID_HANDLE_VALUE"
proof -
  have h: "hwndTarget s \<noteq> INVALID_HANDLE_VALUE"
    using assms(2) by (auto simp: StartPaint_def HRESULT_distinct)
  have p: "\<not> isPainting s"
    using assms(2) h by (auto simp: StartPaint_def HRESULT_distinct)
  show ?thesis
  proof (cases "\<not> haveDeviceResources s
           \<or> cy (displaySizePixels s) \<noteq> cy (GetClientSize env)
           \<or> cx (displaySizePixels s) \<noteq> cx (GetClientSize env)")
    case False
    then show ?thesis
      using assms(1) h p by (simp add: StartPaint_def Let_def)
  next
    case True
    obtain hr s1 where c: "CreateDeviceResources True env s = (hr, s1)"
      by (cases "CreateDeviceResources True env s")
    then have h1: "hwndTarget s1 = hwndTarget s"
      using hwndTarget_CreateDeviceResources [of True env s] by simp
    have sp: "StartPaint env s = (if FAILED hr then (hr, s1) else (S_OK, s1\<lparr>isPainting := True\<rparr>))"
      using assms(1) h p True c by (simp add: StartPaint_def Let_def)
    have "\<not> FAILED hr"
      using assms(2) sp by (auto simp: FAILED_iff split: if_splits)
    then show ?thesis
      using sp h h1 by simp
  qed
qed

text \<open>
  Claim C2. Let a paint session with device resources end with a draw batch that
  succeeds, and let the accumulated scroll delta be non-zero. Then a plan is ready, the
  plan handed to the display by the next \<^verbatim>\<open>Present\<close> carries the accumulated dirty
  rectangle, and with \<open>D\<close> the display rectangle and \<open>Rd\<close> the dirty rectangle: if
  \<open>SubtractRect D Rd\<close> is not empty, it is the plan's scroll rectangle and the accumulated
  delta is its scroll offset; if it is empty, the plan has neither.
\<close>

theorem C2_scroll_plan:
  assumes "isPainting s" and "haveDeviceResources s" and "SUCCEEDED endDraw"
    and "cx (invalidScroll s) \<noteq> 0 \<or> cy (invalidScroll s) \<noteq> 0"
  shows "presentReady (snd (EndPaint endDraw s))
       \<and> fst (Present present1 copy (snd (EndPaint endDraw s)))
           = Some (plan_of (snd (EndPaint endDraw s)))
       \<and> planDirtyRects (plan_of (snd (EndPaint endDraw s))) = [invalidRect s]
       \<and> (\<not> IsRectEmpty (SubtractRect (GetDisplayRect s) (invalidRect s)) \<longrightarrow>
            planScrollRect (plan_of (snd (EndPaint endDraw s)))
              = Some (SubtractRect (GetDisplayRect s) (invalidRect s))
          \<and> planScrollOffset (plan_of (snd (EndPaint endDraw s)))
              = Some \<lparr>x = cx (invalidScroll s), y = cy (invalidScroll s)\<rparr>)
       \<and> (IsRectEmpty (SubtractRect (GetDisplayRect s) (invalidRect s)) \<longrightarrow>
            planScrollRect (plan_of (snd (EndPaint endDraw s))) = None
          \<and> planScrollOffset (plan_of (snd (EndPaint endDraw s))) = None)"
proof -
  let ?s0 = "s\<lparr>isPainting := False\<rparr>"
  let ?s' = "(capture_present ?s0)\<lparr>presentReady := True, invalidRect := SetRectEmpty,
       isInvalidUsed := False, invalidScroll := \<lparr>cx = 0, cy = 0\<rparr>\<rparr>"
  have e: "snd (EndPaint endDraw s) = ?s'"
    using assms by (auto simp: EndPaint_success)
  have p: "plan_of ?s' =
     \<lparr>planDirtyRects = [invalidRect s],
      planScrollRect =
        (if IsRectEmpty (SubtractRect (GetDisplayRect s) (invalidRect s)) then None
         else Some (SubtractRect (GetDisplayRect s) (invalidRect s))),
      planScrollOffset =
        (if IsRectEmpty (SubtractRect (GetDisplayRect s) (invalidRect s)) then None
         else Some \<lparr>x = cx (invalidScroll s), y = cy (invalidScroll s)\<rparr>)\<rparr>"
    by (simp add: plan_of_capture_present GetDisplayRect_def)
  have r: "presentReady ?s'"
    by simp
  then have "fst (Present present1 copy ?s') = Some (plan_of ?s')"
    by (simp add: Present_def)
  with r show ?thesis
    by (simp only: e p) simp
qed

theorem C2_scroll_plan_witness:
  "planDirtyRects (plan_of (snd (EndPaint S_OK scrolled_engine)))
     = [\<lparr>left = 0, top' = 0, right = 96, bottom = 384\<rparr>]
   \<and> planScrollRect (plan_of (snd (EndPaint S_OK scrolled_engine)))
     = Some \<lparr>left = 96, top' = 0, right = 640, bottom = 384\<rparr>
   \<and> planScrollOffset (plan_of (snd (EndPaint S_OK scrolled_engine)))
     = Some \<lparr>x = 16, y = 0\<rparr>"
proof -
  have h1: "isPainting scrolled_engine" by code_simp
  have h2: "haveDeviceResources scrolled_engine" by code_simp
  have h3: "SUCCEEDED S_OK" by code_simp
  have h4: "cx (invalidScroll scrolled_engine) \<noteq> 0 \<or> cy (invalidScroll scrolled_engine) \<noteq> 0"
    by code_simp
  have e1: "invalidRect scrolled_engine = \<lparr>left = 0, top' = 0, right = 96, bottom = 384\<rparr>"
    by code_simp
  have e2: "SubtractRect (GetDisplayRect scrolled_engine) (invalidRect scrolled_engine)
      = \<lparr>left = 96, top' = 0, right = 640, bottom = 384\<rparr>"
    by code_simp
  have e3: "\<not> IsRectEmpty \<lparr>left = 96, top' = 0, right = 640, bottom = 384\<rparr>"
    by code_simp
  have e4: "cx (invalidScroll scrolled_engine) = 16" "cy (invalidScroll scrolled_engine) = 0"
    by code_simp+
  from C2_scroll_plan [OF h1 h2 h3 h4, of S_OK S_OK] show ?thesis
    by (simp only: e2 e3 e4) (simp add: e1)
qed

text \<open>
  Claim C3, as the code has it. When a paint session with device resources ends with a
  draw batch that succeeds and the accumulated scroll delta is (0,0), \<^verbatim>\<open>EndPaint\<close> marks
  a plan ready and leaves the presentation parameters as they were: the plan handed to the
  display is the one the earlier frames left behind. When the parameters are in their
  cleared state, that plan has no dirty rectangle, no scroll rectangle and no scroll
  offset.
\<close>

theorem C3_no_scroll_plan:
  assumes "isPainting s" and "haveDeviceResources s" and "SUCCEEDED endDraw"
    and "cx (invalidScroll s) = 0" and "cy (invalidScroll s) = 0"
  shows "presentReady (snd (EndPaint endDraw s))
       \<and> fst (Present present1 copy (snd (EndPaint endDraw s)))
           = Some (plan_of (snd (EndPaint endDraw s)))
       \<and> presentParams (snd (EndPaint endDraw s)) = presentParams s
       \<and> plan_of (snd (EndPaint endDraw s)) = plan_of s
       \<and> (presentParams s = cleared_params \<longrightarrow>
            plan_of (snd (EndPaint endDraw s))
              = \<lparr>planDirtyRects = [], planScrollRect = None, planScrollOffset = None\<rparr>)"
proof -
  let ?s' = "s\<lparr>isPainting := False, presentReady := True, invalidRect := SetRectEmpty,
       isInvalidUsed := False, invalidScroll := \<lparr>cx = 0, cy = 0\<rparr>\<rparr>"
  have e: "snd (EndPaint endDraw s) = ?s'"
    using assms by (simp add: EndPaint_success)
  have p: "plan_of ?s' = plan_of s"
    by (simp add: plan_of_def deref_RECT_def deref_POINT_def split: member_ptr.splits)
  have c: "presentParams s = cleared_params \<longrightarrow>
      plan_of s = \<lparr>planDirtyRects = [], planScrollRect = None, planScrollOffset = None\<rparr>"
    by (simp add: plan_of_def deref_RECT_def deref_POINT_def cleared_params_def)
  have "fst (Present present1 copy ?s') = Some (plan_of ?s')"
    by (simp add: Present_def)
  with c show ?thesis
    by (simp only: e p) simp
qed

theorem C3_no_scroll_plan_witness:
  "Present S_OK S_OK
     (snd (EndPaint S_OK
        (snd (Invalidate \<lparr>Left = 0, Top = 0, Right = 9, Bottom = 0\<rparr> painting_engine))))
   = (Some \<lparr>planDirtyRects = [], planScrollRect = None, planScrollOffset = None\<rparr>,
      Returns S_OK (ready_engine\<lparr>displaySizePixels := \<lparr>cx = 640, cy = 384\<rparr>,
         haveDeviceResources := True, comHeld := UNIV\<rparr>))"
proof -
  let ?s = "snd (Invalidate \<lparr>Left = 0, Top = 0, Right = 9, Bottom = 0\<rparr> painting_engine)"
  have h1: "isPainting ?s" by code_simp
  have h2: "haveDeviceResources ?s" by code_simp
  have h3: "SUCCEEDED S_OK" by code_simp
  have h4: "cx (invalidScroll ?s) = 0" by code_simp
  have h5: "cy (invalidScroll ?s) = 0" by code_simp
  have h6: "presentParams ?s = cleared_params" by code_simp
  have e: "snd (Present S_OK S_OK (snd (EndPaint S_OK ?s)))
      = Returns S_OK (ready_engine\<lparr>displaySizePixels := \<lparr>cx = 640, cy = 384\<rparr>,
         haveDeviceResources := True, comHeld := UNIV\<rparr>)"
    by code_simp
  note t = C3_no_scroll_plan [OF h1 h2 h3 h4 h5, of S_OK S_OK]
  from t h6 have p: "plan_of (snd (EndPaint S_OK ?s))
      = \<lparr>planDirtyRects = [], planScrollRect = None, planScrollOffset = None\<rparr>"
    by blast
  from t have f: "fst (Present S_OK S_OK (snd (EndPaint S_OK ?s)))
      = Some (plan_of (snd (EndPaint S_OK ?s)))"
    by blast
  have "Present S_OK S_OK (snd (EndPaint S_OK ?s))
      = (fst (Present S_OK S_OK (snd (EndPaint S_OK ?s))),
         snd (Present S_OK S_OK (snd (EndPaint S_OK ?s))))"
    by simp
  then show ?thesis
    by (simp only: f p e)
qed

text \<open>
  The claim as the specification words it fails: the accumulated dirty rectangle is not
  part of the plan of a frame without scroll. In the first frame of an engine the dirty
  rectangle is (0,0,80,16) and the plan is empty. When the parameters of a scrolled frame
  were not cleared by a completed \<^verbatim>\<open>Present\<close>, the next frame without scroll hands over the
  old dirty rectangle, scroll rectangle and scroll offset.
\<close>

theorem C3_counterexample:
  "invalidScroll (snd (Invalidate \<lparr>Left = 0, Top = 0, Right = 9, Bottom = 0\<rparr> painting_engine))
     = \<lparr>cx = 0, cy = 0\<rparr>
   \<and> invalidRect (snd (Invalidate \<lparr>Left = 0, Top = 0, Right = 9, Bottom = 0\<rparr> painting_engine))
     = \<lparr>left = 0, top' = 0, right = 80, bottom = 16\<rparr>
   \<and> Present S_OK S_OK
       (snd (EndPaint S_OK
          (snd (Invalidate \<lparr>Left = 0, Top = 0, Right = 9, Bottom = 0\<rparr> painting_engine))))
     = (Some \<lparr>planDirtyRects = [], planScrollRect = None, planScrollOffset = None\<rparr>,
        Returns S_OK (ready_engine\<lparr>displaySizePixels := \<lparr>cx = 640, cy = 384\<rparr>,
           haveDeviceResources := True, comHeld := UNIV\<rparr>))
   \<and> invalidScroll (snd (Invalidate \<lparr>Left = 0, Top = 0, Right = 0, Bottom = 0\<rparr>
        (snd (StartPaint window_env (snd (EndPaint S_OK scrolled_engine))))))
     = \<lparr>cx = 0, cy = 0\<rparr>
   \<and> fst (Present S_OK S_OK
       (snd (EndPaint S_OK
          (snd (Invalidate \<lparr>Left = 0, Top = 0, Right = 0, Bottom = 0\<rparr>
            (snd (StartPaint window_env (snd (EndPaint S_OK scrolled_engine)))))))))
     = Some \<lparr>planDirtyRects = [\<lparr>left = 0, top' = 0, right = 96, bottom = 384\<rparr>],
             planScrollRect = Some \<lparr>left = 96, top' = 0, right = 640, bottom = 384\<rparr>,
             planScrollOffset = Some \<lparr>x = 16, y = 0\<rparr>\<rparr>"
  by code_simp

text \<open>
  Claim C5, as the code has it. \<^verbatim>\<open>StartPaint\<close> fails with \<open>E_NOT_VALID_STATE\<close>, and
  changes nothing, when a target is configured and a paint session is open; this is the
  case for a second \<^verbatim>\<open>StartPaint\<close> that follows a successful one on an enabled engine.
  \<^verbatim>\<open>EndPaint\<close> fails with \<open>E_INVALIDARG\<close> when no session is open, and \<^verbatim>\<open>StartPaint\<close>
  fails with \<open>E_HANDLE\<close> when no target is configured.
\<close>

theorem C5_paint_sequencing:
  "(hwndTarget s \<noteq> INVALID_HANDLE_VALUE \<and> isPainting s \<longrightarrow>
      StartPaint env s = (E_NOT_VALID_STATE, s))
   \<and> (isEnabled s \<and> SUCCEEDED (fst (StartPaint env s)) \<longrightarrow>
      StartPaint env' (snd (StartPaint env s)) = (E_NOT_VALID_STATE, snd (StartPaint env s)))
   \<and> (\<not> isPainting s \<longrightarrow> EndPaint endDraw s = (E_INVALIDARG, s))
   \<and> (hwndTarget s = INVALID_HANDLE_VALUE \<longrightarrow> StartPaint env s = (E_HANDLE, s))"
proof -
  have a: "hwndTarget t \<noteq> INVALID_HANDLE_VALUE \<and> isPainting t \<longrightarrow>
      StartPaint e t = (E_NOT_VALID_STATE, t)" for e and t :: "'a DxEngine"
    by (simp add: StartPaint_def)
  have b: "isEnabled s \<and> SUCCEEDED (fst (StartPaint env s)) \<longrightarrow>
      StartPaint env' (snd (StartPaint env s)) = (E_NOT_VALID_STATE, snd (StartPaint env s))"
    using a [of "snd (StartPaint env s)" env'] StartPaint_opens [of s env] by blast
  have c: "\<not> isPainting s \<longrightarrow> EndPaint endDraw s = (E_INVALIDARG, s)"
    by (simp add: EndPaint_def)
  have d: "hwndTarget s = INVALID_HANDLE_VALUE \<longrightarrow> StartPaint env s = (E_HANDLE, s)"
    by (simp add: StartPaint_def)
  from a [of s env] b c d show ?thesis by blast
qed

theorem C5_paint_sequencing_witness:
  "StartPaint window_env painting_engine = (E_NOT_VALID_STATE, painting_engine)
   \<and> StartPaint window_env (snd (StartPaint window_env ready_engine))
       = (E_NOT_VALID_STATE, snd (StartPaint window_env ready_engine))
   \<and> EndPaint S_OK ready_engine = (E_INVALIDARG, ready_engine)
   \<and> StartPaint window_env (idle_engine \<lparr>cx = 8, cy = 16\<rparr> \<lparr>cx = 0, cy = 0\<rparr>)
       = (E_HANDLE, idle_engine \<lparr>cx = 8, cy = 16\<rparr> \<lparr>cx = 0, cy = 0\<rparr>)"
proof -
  have h1: "hwndTarget painting_engine \<noteq> INVALID_HANDLE_VALUE \<and> isPainting painting_engine"
    by code_simp
  have h2: "isEnabled ready_engine \<and> SUCCEEDED (fst (StartPaint window_env ready_engine))"
    by code_simp
  have h3: "\<not> isPainting ready_engine"
    by code_simp
  have h4: "hwndTarget (idle_engine \<lparr>cx = 8, cy = 16\<rparr> \<lparr>cx = 0, cy = 0\<rparr>) = INVALID_HANDLE_VALUE"
    by code_simp
  from C5_paint_sequencing [of painting_engine window_env window_env S_OK] h1
  have c1: "StartPaint window_env painting_engine = (E_NOT_VALID_STATE, painting_engine)"
    by blast
  from C5_paint_sequencing [of ready_engine window_env window_env S_OK] h2 h3
  have c2: "StartPaint window_env (snd (StartPaint window_env ready_engine))
       = (E_NOT_VALID_STATE, snd (StartPaint window_env ready_engine))"
    and c3: "EndPaint S_OK ready_engine = (E_INVALIDARG, ready_engine)"
    by blast+
  from C5_paint_sequencing
    [of "idle_engine \<lparr>cx = 8, cy = 16\<rparr> \<lparr>cx = 0, cy = 0\<rparr>" window_env window_env S_OK] h4
  have c4: "StartPaint window_env (idle_engine \<lparr>cx = 8, cy = 16\<rparr> \<lparr>cx = 0, cy = 0\<rparr>)
       = (E_HANDLE, idle_engine \<lparr>cx = 8, cy = 16\<rparr> \<lparr>cx = 0, cy = 0\<rparr>)"
    by blast
  from c1 c2 c3 c4 show ?thesis by blast
qed

text \<open>
  The claim as the specification words it fails on an engine that is not enabled:
  \<^verbatim>\<open>StartPaint\<close> opens no session there, and a second call succeeds like the first.
\<close>

theorem C5_counterexample:
  "\<not> isEnabled (snd (SetHwnd (Window 1) (idle_engine \<lparr>cx = 8, cy = 16\<rparr> \<lparr>cx = 0, cy = 0\<rparr>)))
   \<and> fst (StartPaint window_env
         (snd (SetHwnd (Window 1) (idle_engine \<lparr>cx = 8, cy = 16\<rparr> \<lparr>cx = 0, cy = 0\<rparr>)))) = S_OK
   \<and> fst (StartPaint window_env
         (snd (StartPaint window_env
            (snd (SetHwnd (Window 1) (idle_engine \<lparr>cx = 8, cy = 16\<rparr> \<lparr>cx = 0, cy = 0\<rparr>))))))
       = S_OK
   \<and> S_OK \<noteq> E_NOT_VALID_STATE"
  by code_simp

text \<open>
  Claim C6. \<^verbatim>\<open>EndPaint\<close> on an open session leaves the dirty rectangle all zero, the
  dirty flag cleared and the scroll accumulator zero, whatever the draw batch returns.
  When the engine has device resources and the draw batch fails, \<^verbatim>\<open>EndPaint\<close> returns
  that failure, no plan is ready (the next \<^verbatim>\<open>Present\<close> hands nothing over), and all
  device resources are released.
\<close>

theorem C6_endPaint_clears:
  assumes "isPainting s"
  shows "invalidRect (snd (EndPaint endDraw s)) = SetRectEmpty
       \<and> \<not> isInvalidUsed (snd (EndPaint endDraw s))
       \<and> invalidScroll (snd (EndPaint endDraw s)) = \<lparr>cx = 0, cy = 0\<rparr>
       \<and> (haveDeviceResources s \<and> FAILED endDraw \<longrightarrow>
            fst (EndPaint endDraw s) = endDraw
          \<and> \<not> presentReady (snd (EndPaint endDraw s))
          \<and> fst (Present present1 copy (snd (EndPaint endDraw s))) = None
          \<and> \<not> haveDeviceResources (snd (EndPaint endDraw s))
          \<and> comHeld (snd (EndPaint endDraw s)) = {})"
proof (cases "haveDeviceResources s")
  case False
  then show ?thesis
    using assms by (simp add: EndPaint_no_resources)
next
  case True
  show ?thesis
  proof (cases "FAILED endDraw")
    case True
    with \<open>haveDeviceResources s\<close> assms show ?thesis
      by (simp add: EndPaint_failure Present_def)
  next
    case False
    then have "SUCCEEDED endDraw" by (simp add: FAILED_iff)
    with \<open>haveDeviceResources s\<close> assms False show ?thesis
      by (simp add: EndPaint_success)
  qed
qed

theorem C6_endPaint_clears_witness:
  "EndPaint D2DERR_RECREATE_TARGET scrolled_engine = (D2DERR_RECREATE_TARGET, ready_engine\<lparr>displaySizePixels := \<lparr>cx = 640, cy = 384\<rparr>\<rparr>)
   \<and> invalidRect (snd (EndPaint D2DERR_RECREATE_TARGET scrolled_engine)) = SetRectEmpty
   \<and> \<not> isInvalidUsed (snd (EndPaint D2DERR_RECREATE_TARGET scrolled_engine))
   \<and> invalidScroll (snd (EndPaint D2DERR_RECREATE_TARGET scrolled_engine)) = \<lparr>cx = 0, cy = 0\<rparr>
   \<and> \<not> presentReady (snd (EndPaint D2DERR_RECREATE_TARGET scrolled_engine))
   \<and> comHeld (snd (EndPaint D2DERR_RECREATE_TARGET scrolled_engine)) = {}
   \<and> invalidRect (snd (EndPaint S_OK scrolled_engine)) = SetRectEmpty
   \<and> \<not> isInvalidUsed (snd (EndPaint S_OK scrolled_engine))
   \<and> invalidScroll (snd (EndPaint S_OK scrolled_engine)) = \<lparr>cx = 0, cy = 0\<rparr>"
proof -
  have h1: "isPainting scrolled_engine" by code_simp
  have h2: "haveDeviceResources scrolled_engine \<and> FAILED D2DERR_RECREATE_TARGET" by code_simp
  have e: "EndPaint D2DERR_RECREATE_TARGET scrolled_engine = (D2DERR_RECREATE_TARGET, ready_engine\<lparr>displaySizePixels := \<lparr>cx = 640, cy = 384\<rparr>\<rparr>)"
    by code_simp
  from C6_endPaint_clears [OF h1, of D2DERR_RECREATE_TARGET S_OK S_OK] h2
    C6_endPaint_clears [OF h1, of S_OK S_OK S_OK] e
  show ?thesis by blast
qed




subsection \<open>The two paths of a painted line\<close>




subsection \<open>The cursor rectangle\<close>









end
